theory Spec2Isabelle
  imports Complex_Main "HOL-Library.Word" "HOL-Library.Sublist"
begin

section \<open>Python values used by the training script\<close>

text \<open>
  The script is one Python module, \<^verbatim>\<open>ImagenetPytorchHorovod.py\<close>. Strings are lists of
  characters (code points below 256), exceptions are values of the type \<open>error\<close>, and a
  computation that may raise returns \<open>error + 'a\<close> with \<open>Inl\<close> for the exception.
\<close>

datatype error =
    NameError string
  | TypeError
  | IndexError
  | OSError string
  | ExternalError string

text \<open>
  \<^verbatim>\<open>str.lower()\<close> on code points below 256: the ASCII capitals \<open>A\<close>..\<open>Z\<close> and the
  Latin-1 capitals U+00C0..U+00DE (without the multiplication sign U+00D7) move up by 32,
  every other character stays.
\<close>

definition lower_char :: "char \<Rightarrow> char" where
  "lower_char c =
     (let n = (of_char c :: nat)
      in if (65 \<le> n \<and> n \<le> 90) \<or> (192 \<le> n \<and> n \<le> 222 \<and> n \<noteq> 215)
         then char_of (n + 32) else c)"

definition lower :: "string \<Rightarrow> string" where
  "lower s = map lower_char s"

text \<open>
  \<^verbatim>\<open>
  def _str_to_bool(in_str):
      if 't' in in_str.lower():
          return True
      else:
          return False
  \<close>
\<close>

definition str_to_bool :: "string \<Rightarrow> bool" where
  "str_to_bool in_str = (if CHR ''t'' \<in> set (lower in_str) then True else False)"


text \<open>
  The module reads its switch once, at import time, and imports Horovod only when the
  switch is on, so the name \<^verbatim>\<open>hvd\<close> is bound in distributed mode only:
  \<^verbatim>\<open>
  _DISTRIBUTED = _str_to_bool(os.getenv('DISTRIBUTED', 'False'))
  if _DISTRIBUTED:
      import horovod.torch as hvd
  \<close>
\<close>

record hvd_module =
  hvd_rank :: nat
  hvd_size :: nat
  hvd_local_rank :: nat

record globals =
  DISTRIBUTED :: bool
  hvd :: "hvd_module option"

definition lookup_hvd :: "globals \<Rightarrow> error + hvd_module" where
  "lookup_hvd g = (case hvd g of None \<Rightarrow> Inl (NameError ''hvd'') | Some h \<Rightarrow> Inr h)"

definition EPOCHS :: nat where
  "EPOCHS = 1"

definition BATCHSIZE :: nat where
  "BATCHSIZE = 64"

definition SEED :: nat where
  "SEED = 42"

subsection \<open>Manifests\<close>

text \<open>
  A manifest, once parsed by \<^verbatim>\<open>pd.read_csv\<close>, is a frame with the columns
  \<^verbatim>\<open>filenames\<close> (strings) and \<^verbatim>\<open>num_id\<close> (int64, so a 64-bit word read as two's
  complement). A file that is missing or does not parse to such a frame is an error of
  \<^verbatim>\<open>read_csv\<close>.
\<close>

record row =
  filenames :: string
  num_id :: "64 word"

type_synonym frame = "row list"

subsection \<open>What a run observes and what it is given\<close>

text \<open>
  The calls into PyTorch, Horovod, pandas and the file system are recorded as events, in
  program order; \<open>'v\<close> is the type of decoded images and tensors. The timing output of
  \<^verbatim>\<open>Timer\<close> is left out.
\<close>

datatype 'v event =
    LogInfo string
  | LogLoaded nat nat
  | LogProgress nat nat nat
  | HvdInit
  | TorchManualSeed nat
  | CudaSetDevice nat
  | CudaManualSeed nat
  | ReadCsv string
  | OpenFile string
  | CudnnBenchmark
  | LoadModel string
  | ModelCuda
  | BroadcastParameters nat
  | MakeSGD nat
  | DistributedOptimizer
  | ModelTrain
  | SetEpoch nat
  | BatchToCuda
  | ZeroGrad
  | Forward "'v list"
  | CrossEntropy "64 word list"
  | Backward
  | OptimizerStep

text \<open>
  Everything the process is given from outside: its environment variables, the Horovod
  module it would import, the file system as seen through \<^verbatim>\<open>pd.read_csv\<close> and
  \<^verbatim>\<open>open(_, 'rb')\<close>, the image decoder, the transform pipeline of the training set and
  the pseudo-random permutation of the sampler (seed, then length).
\<close>

record 'v world =
  getenv :: "string \<Rightarrow> string option"
  horovod :: hvd_module
  read_csv :: "string \<Rightarrow> error + frame"
  open_rb :: "string \<Rightarrow> error + string"
  Image_open :: "string \<Rightarrow> error + 'v"
  convert_RGB :: "'v \<Rightarrow> error + 'v"
  train_transform :: "'v \<Rightarrow> error + 'v"
  randperm :: "nat \<Rightarrow> nat \<Rightarrow> nat list"

definition module_globals :: "'v world \<Rightarrow> globals" where
  "module_globals w =
     (let d = str_to_bool (case getenv w ''DISTRIBUTED'' of None \<Rightarrow> ''False'' | Some s \<Rightarrow> s)
      in \<lparr>DISTRIBUTED = d, hvd = (if d then Some (horovod w) else None)\<rparr>)"

text \<open>
  A run is the trace of its events together with its outcome; an exception ends the run
  where it is raised, since the script has no \<^verbatim>\<open>try\<close>.
\<close>

type_synonym ('v, 'a) run = "'v event list \<times> (error + 'a)"

definition run_ret :: "'a \<Rightarrow> ('v, 'a) run" where
  "run_ret x = ([], Inr x)"

definition run_lift :: "error + 'a \<Rightarrow> ('v, 'a) run" where
  "run_lift r = ([], r)"

definition run_emit :: "'v event \<Rightarrow> ('v, unit) run" where
  "run_emit ev = ([ev], Inr ())"

definition run_bind :: "('v, 'a) run \<Rightarrow> ('a \<Rightarrow> ('v, 'b) run) \<Rightarrow> ('v, 'b) run" where
  "run_bind m f =
     (case snd m of
        Inl e \<Rightarrow> (fst m, Inl e)
      | Inr x \<Rightarrow> (fst m @ fst (f x), snd (f x)))"

subsection \<open>Loading the two manifests\<close>

text \<open>
  \<^verbatim>\<open>os.path.join(a, b)\<close> on POSIX: an absolute \<open>b\<close> replaces \<open>a\<close>, otherwise \<open>b\<close> is
  appended with one separator unless \<open>a\<close> is empty or already ends in one. A first
  argument \<^verbatim>\<open>None\<close> (an unset environment variable) raises \<^verbatim>\<open>TypeError\<close>.
\<close>

definition path_join :: "string \<Rightarrow> string \<Rightarrow> string" where
  "path_join a b =
     (if take 1 b = ''/'' then b
      else if a = [] \<or> drop (length a - 1) a = ''/'' then a @ b
      else a @ ''/'' @ b)"

definition path_join_py :: "string option \<Rightarrow> string \<Rightarrow> error + string" where
  "path_join_py a b = (case a of None \<Rightarrow> Inl TypeError | Some a' \<Rightarrow> Inr (path_join a' b))"

text \<open>
  \<^verbatim>\<open>
  def _append_path_to(data_path, data_series):
      return data_series.apply(lambda x: path.join(data_path, x))
  \<close>
\<close>

definition append_path_to :: "string \<Rightarrow> string list \<Rightarrow> string list" where
  "append_path_to data_path data_series = map (\<lambda>x. path_join data_path x) data_series"

text \<open>\<^verbatim>\<open>df.assign(filenames=series)\<close>: the frame with its \<^verbatim>\<open>filenames\<close> column replaced.\<close>

definition assign_filenames :: "frame \<Rightarrow> string list \<Rightarrow> frame" where
  "assign_filenames df series = map (\<lambda>(r, f). r\<lparr>filenames := f\<rparr>) (zip df series)"

text \<open>
  \<^verbatim>\<open>
  def _load_training(data_dir):
      train_df = pd.read_csv(path.join(data_dir, 'train.csv'))
      return train_df.assign(filenames=_append_path_to(path.join(data_dir, 'train'),
                                                       train_df.filenames))
  \<close>
  and the same for \<^verbatim>\<open>_load_validation\<close> with \<^verbatim>\<open>validation.csv\<close> and \<^verbatim>\<open>validation\<close>.
\<close>

definition load_training :: "'v world \<Rightarrow> string option \<Rightarrow> ('v, frame) run" where
  "load_training w data_dir =
     run_bind (run_lift (path_join_py data_dir ''train.csv'')) (\<lambda>csv.
     run_bind (run_emit (ReadCsv csv)) (\<lambda>_.
     run_bind (run_lift (read_csv w csv)) (\<lambda>train_df.
     run_bind (run_lift (path_join_py data_dir ''train'')) (\<lambda>data_path.
     run_ret (assign_filenames train_df (append_path_to data_path (map filenames train_df)))))))"

definition load_validation :: "'v world \<Rightarrow> string option \<Rightarrow> ('v, frame) run" where
  "load_validation w data_dir =
     run_bind (run_lift (path_join_py data_dir ''validation.csv'')) (\<lambda>csv.
     run_bind (run_emit (ReadCsv csv)) (\<lambda>_.
     run_bind (run_lift (read_csv w csv)) (\<lambda>train_df.
     run_bind (run_lift (path_join_py data_dir ''validation'')) (\<lambda>data_path.
     run_ret (assign_filenames train_df (append_path_to data_path (map filenames train_df)))))))"

text \<open>
  \<^verbatim>\<open>
  def _create_data_fn(train_path, test_path):
      train_df = _load_training(train_path)
      validation_df = _load_validation(test_path)
      train_X = train_df['filenames'].values
      validation_X = validation_df['filenames'].values
      train_labels = train_df[['num_id']].values.ravel()
      validation_labels = validation_df[['num_id']].values.ravel()
      train_labels -= 1
      validation_labels -= 1
      return train_X, train_labels, validation_X, validation_labels
  \<close>
  The subtraction is numpy's on int64: it wraps around.
\<close>

definition create_data_fn ::
  "'v world \<Rightarrow> string option \<Rightarrow> string option
     \<Rightarrow> ('v, string list \<times> 64 word list \<times> string list \<times> 64 word list) run" where
  "create_data_fn w train_path test_path =
     run_bind (run_emit (LogInfo ''Reading training data info'')) (\<lambda>_.
     run_bind (load_training w train_path) (\<lambda>train_df.
     run_bind (run_emit (LogInfo ''Reading validation data info'')) (\<lambda>_.
     run_bind (load_validation w test_path) (\<lambda>validation_df.
     let train_X = map filenames train_df;
         validation_X = map filenames validation_df;
         train_labels = map num_id train_df;
         validation_labels = map num_id validation_df;
         train_labels = map (\<lambda>k. k - 1) train_labels;
         validation_labels = map (\<lambda>k. k - 1) validation_labels
     in run_ret (train_X, train_labels, validation_X, validation_labels)))))"

subsection \<open>The dataset\<close>

record 'v ImageNet =
  img_locs :: "string list"
  labels :: "64 word list"
  transform :: "('v \<Rightarrow> error + 'v) option"

definition ImageNet_init ::
  "string list \<Rightarrow> 64 word list \<Rightarrow> ('v \<Rightarrow> error + 'v) option \<Rightarrow> ('v, 'v ImageNet) run" where
  "ImageNet_init locs img_labels tf =
     run_bind (run_emit (LogLoaded (length img_labels) (length locs))) (\<lambda>_.
     run_ret \<lparr>img_locs = locs, labels = img_labels, transform = tf\<rparr>)"

text \<open>
  Indexing a numpy array with an integer: an index from \<open>-n\<close> up to \<open>-1\<close> counts from the
  end, anything outside \<open>-n..n-1\<close> raises \<^verbatim>\<open>IndexError\<close>.
\<close>

definition np_index :: "'a list \<Rightarrow> int \<Rightarrow> error + 'a" where
  "np_index xs idx =
     (if 0 \<le> idx \<and> idx < int (length xs) then Inr (xs ! nat idx)
      else if - int (length xs) \<le> idx \<and> idx < 0 then Inr (xs ! nat (int (length xs) + idx))
      else Inl IndexError)"

text \<open>
  \<^verbatim>\<open>
  def __getitem__(self, idx):
      im_file = self.img_locs[idx]
      label = self.labels[idx]
      with open(im_file, 'rb') as f:
          im_rgb = Image.open(f)
          im_rgb = im_rgb.convert('RGB')
          if self.transform is not None:
              im_rgb = self.transform(im_rgb)
          return im_rgb, label
  \<close>
\<close>

definition getitem :: "'v world \<Rightarrow> 'v ImageNet \<Rightarrow> int \<Rightarrow> ('v, 'v \<times> 64 word) run" where
  "getitem w self idx =
     run_bind (run_lift (np_index (img_locs self) idx)) (\<lambda>im_file.
     run_bind (run_lift (np_index (labels self) idx)) (\<lambda>label.
     run_bind (run_emit (OpenFile im_file)) (\<lambda>_.
     run_bind (run_lift (open_rb w im_file)) (\<lambda>f.
     run_bind (run_lift (Image_open w f)) (\<lambda>im_rgb.
     run_bind (run_lift (convert_RGB w im_rgb)) (\<lambda>im_rgb.
     run_bind (case transform self of
                 None \<Rightarrow> run_ret im_rgb
               | Some t \<Rightarrow> run_lift (t im_rgb)) (\<lambda>im_rgb.
     run_ret (im_rgb, label))))))))"

definition ImageNet_len :: "'v ImageNet \<Rightarrow> nat" where
  "ImageNet_len self = length (img_locs self)"

text \<open>
  \<^verbatim>\<open>
  def _is_master(is_distributed=_DISTRIBUTED):
      if is_distributed:
          if hvd.rank() == 0: return True
          else: return False
      else:
          return True
  \<close>
\<close>

definition is_master :: "globals \<Rightarrow> bool \<Rightarrow> error + bool" where
  "is_master g is_distributed =
     (if is_distributed
      then (case lookup_hvd g of
              Inl e \<Rightarrow> Inl e
            | Inr h \<Rightarrow> (if hvd_rank h = 0 then Inr True else Inr False))
      else Inr True)"

subsection \<open>The distributed sampler and the batch loader\<close>

text \<open>
  Modelled from the spec: \<^verbatim>\<open>torch.utils.data.distributed.DistributedSampler\<close> is library
  code outside the repository; the script only constructs it and calls \<^verbatim>\<open>set_epoch\<close>.
  The spec's contract \<^verbatim>\<open>order_for(epoch)\<close>: permute all \<open>total_samples\<close> positions by
  a pseudo-random permutation seeded by the epoch, pad the permutation by appending a
  wrap-around prefix of itself to a length divisible by \<open>world_size\<close>, and take the
  contiguous slice \<open>[rank * shard_len, (rank + 1) * shard_len)\<close>, where \<open>shard_len\<close> is
  \<open>ceil(total_samples / world_size)\<close>. The permutation itself is a parameter
  (seed, then length).
\<close>

definition shard_len :: "nat \<Rightarrow> nat \<Rightarrow> nat" where
  "shard_len total_samples world_size = (total_samples + world_size - 1) div world_size"

text \<open>The first \<open>k\<close> entries of \<open>p\<close> repeated cyclically: its wrap-around prefix of length \<open>k\<close>.\<close>

definition wrap_around :: "'a list \<Rightarrow> nat \<Rightarrow> 'a list" where
  "wrap_around p k = take k (concat (replicate k p))"

definition pad_permutation :: "'a list \<Rightarrow> nat \<Rightarrow> 'a list" where
  "pad_permutation p world_size =
     p @ wrap_around p (shard_len (length p) world_size * world_size - length p)"

definition order_for :: "(nat \<Rightarrow> nat \<Rightarrow> nat list) \<Rightarrow> nat \<Rightarrow> nat \<Rightarrow> nat \<Rightarrow> nat \<Rightarrow> nat list" where
  "order_for perm total_samples world_size rank epoch =
     (let padded = pad_permutation (perm epoch total_samples) world_size
      in take (shard_len total_samples world_size)
           (drop (rank * shard_len total_samples world_size) padded))"

text \<open>
  The part of a shard that is not padding: the same slice taken from the permutation
  before it is padded (a slice past the end is cut, as Python's slices are).
\<close>

definition unpadded_shard :: "(nat \<Rightarrow> nat \<Rightarrow> nat list) \<Rightarrow> nat \<Rightarrow> nat \<Rightarrow> nat \<Rightarrow> nat \<Rightarrow> nat list" where
  "unpadded_shard perm total_samples world_size rank epoch =
     take (shard_len total_samples world_size)
       (drop (rank * shard_len total_samples world_size) (perm epoch total_samples))"

text \<open>A permutation of the positions \<open>[0, n)\<close>.\<close>

definition is_permutation :: "nat list \<Rightarrow> nat \<Rightarrow> bool" where
  "is_permutation p n = (distinct p \<and> set p = {0..<n})"

text \<open>One permutation of ten positions, for the scenario with ten samples.\<close>

definition perm10 :: "nat \<Rightarrow> nat \<Rightarrow> nat list" where
  "perm10 seed n = [7, 2, 9, 0, 4, 1, 8, 5, 3, 6]"

text \<open>
  The sampler object: the replica descriptor, the size of the sample index and the epoch
  cursor, which \<^verbatim>\<open>set_epoch\<close> overwrites and iteration reads.
\<close>

record sampler =
  total_samples :: nat
  world_size :: nat
  rank :: nat
  epoch :: nat

definition DistributedSampler :: "nat \<Rightarrow> nat \<Rightarrow> nat \<Rightarrow> sampler" where
  "DistributedSampler dataset_len num_replicas r =
     \<lparr>total_samples = dataset_len, world_size = num_replicas, rank = r, epoch = 0\<rparr>"

definition set_epoch :: "sampler \<Rightarrow> nat \<Rightarrow> sampler" where
  "set_epoch s e = s\<lparr>epoch := e\<rparr>"

definition sampler_iter :: "(nat \<Rightarrow> nat \<Rightarrow> nat list) \<Rightarrow> sampler \<Rightarrow> nat list" where
  "sampler_iter perm s = order_for perm (total_samples s) (world_size s) (rank s) (epoch s)"







text \<open>
  Modelled from the spec: \<^verbatim>\<open>torch.utils.data.DataLoader\<close> is library code as well. The
  batch loader walks the sampler's order for the current epoch and groups every
  \<open>batch_size\<close> consecutive positions; the last group may be shorter.
\<close>

record 'v DataLoader =
  dataset :: "'v ImageNet"
  batch_size :: nat
  sampler :: sampler

definition batches :: "nat \<Rightarrow> 'a list \<Rightarrow> 'a list list" where
  "batches n xs = map (\<lambda>j. take n (drop (j * n) xs)) [0..<(length xs + n - 1) div n]"

definition loader_iter :: "'v world \<Rightarrow> 'v DataLoader \<Rightarrow> nat list list" where
  "loader_iter w loader = batches (batch_size loader) (sampler_iter (randperm w) (sampler loader))"

text \<open>One batch: \<^verbatim>\<open>__getitem__\<close> for each position in turn; the first failure ends it.\<close>

fun fetch :: "'v world \<Rightarrow> 'v ImageNet \<Rightarrow> nat list \<Rightarrow> ('v, ('v \<times> 64 word) list) run" where
  "fetch w ds [] = run_ret []"
| "fetch w ds (i # rest) =
     run_bind (getitem w ds (int i)) (\<lambda>x.
     run_bind (fetch w ds rest) (\<lambda>xs.
     run_ret (x # xs)))"

subsection \<open>The training loop\<close>

text \<open>
  \<^verbatim>\<open>
  def train(train_loader, model, criterion, optimizer, epoch):
      logger.info("Training ...")
      for i, (data, target) in enumerate(train_loader):
          data, target = data.cuda(), target.cuda()
          optimizer.zero_grad()
          output = model(data)
          loss = F.cross_entropy(output, target)
          loss.backward()
          optimizer.step()
          if i % 100 == 0:
              logger.info(msg.format(epoch, t.elapsed, loss.data[0], i * len(data)))
  \<close>
  The loop over the batches, with the counter \<open>i\<close> of \<^verbatim>\<open>enumerate\<close>.
\<close>

fun train_loop :: "'v world \<Rightarrow> 'v ImageNet \<Rightarrow> nat \<Rightarrow> nat \<Rightarrow> nat list list \<Rightarrow> ('v, unit) run" where
  "train_loop w ds ep i [] = run_ret ()"
| "train_loop w ds ep i (b # rest) =
     run_bind (fetch w ds b) (\<lambda>samples.
     run_bind (run_emit BatchToCuda) (\<lambda>_.
     run_bind (run_emit ZeroGrad) (\<lambda>_.
     run_bind (run_emit (Forward (map fst samples))) (\<lambda>_.
     run_bind (run_emit (CrossEntropy (map snd samples))) (\<lambda>_.
     run_bind (run_emit Backward) (\<lambda>_.
     run_bind (run_emit OptimizerStep) (\<lambda>_.
     run_bind (if i mod 100 = 0
               then run_emit (LogProgress ep i (i * length samples))
               else run_ret ()) (\<lambda>_.
     train_loop w ds ep (i + 1) rest))))))))"

definition train :: "'v world \<Rightarrow> 'v DataLoader \<Rightarrow> nat \<Rightarrow> ('v, unit) run" where
  "train w train_loader ep =
     run_bind (run_emit (LogInfo ''Training ...'')) (\<lambda>_.
     train_loop w (dataset train_loader) ep 0 (loader_iter w train_loader))"

text \<open>
  \<^verbatim>\<open>
  for epoch in range(_EPOCHS):
      with Timer(output=logger.info, prefix="Training"):
          model.train()
          train_sampler.set_epoch(epoch)
          train(train_loader, model, criterion, optimizer, epoch)
  \<close>
\<close>

fun epochs_loop :: "'v world \<Rightarrow> 'v DataLoader \<Rightarrow> nat list \<Rightarrow> ('v, unit) run" where
  "epochs_loop w train_loader [] = run_ret ()"
| "epochs_loop w train_loader (ep # rest) =
     run_bind (run_emit ModelTrain) (\<lambda>_.
     run_bind (run_emit (SetEpoch ep)) (\<lambda>_.
     let train_loader = train_loader\<lparr>sampler := set_epoch (sampler train_loader) ep\<rparr>
     in run_bind (train w train_loader ep) (\<lambda>_.
        epochs_loop w train_loader rest)))"

text \<open>
  \<^verbatim>\<open>main\<close>, statement by statement. Every use of the name \<^verbatim>\<open>hvd\<close> looks the name up
  in the module's globals and raises \<^verbatim>\<open>NameError\<close> when it is unbound; only the first
  block of \<^verbatim>\<open>main\<close> is guarded by \<^verbatim>\<open>if _DISTRIBUTED\<close>.
\<close>

definition main :: "'v world \<Rightarrow> ('v, unit) run" where
  "main w =
     (let g = module_globals w in
      run_bind (if DISTRIBUTED g
                then run_bind (run_emit (LogInfo ''Runnin Distributed'')) (\<lambda>_.
                     run_bind (run_lift (lookup_hvd g)) (\<lambda>h.
                     run_bind (run_emit HvdInit) (\<lambda>_.
                     run_bind (run_emit (TorchManualSeed SEED)) (\<lambda>_.
                     run_bind (run_lift (lookup_hvd g)) (\<lambda>h.
                     run_bind (run_emit (CudaSetDevice (hvd_local_rank h))) (\<lambda>_.
                     run_emit (CudaManualSeed SEED)))))))
                else run_ret ()) (\<lambda>_.
      run_bind (run_emit (LogInfo ''PyTorch version'')) (\<lambda>_.
      run_bind (create_data_fn w (getenv w ''AZ_BATCHAI_INPUT_TRAIN'')
                  (getenv w ''AZ_BATCHAI_INPUT_TEST'')) (\<lambda>(train_X, train_y, valid_X, valid_y).
      run_bind (run_emit (LogInfo ''Setting up loaders'')) (\<lambda>_.
      run_bind (ImageNet_init train_X train_y (Some (train_transform w))) (\<lambda>train_dataset.
      run_bind (run_lift (lookup_hvd g)) (\<lambda>h.
      let train_sampler =
            DistributedSampler (ImageNet_len train_dataset) (hvd_size h) (hvd_rank h);
          train_loader =
            \<lparr>dataset = train_dataset, batch_size = BATCHSIZE, sampler = train_sampler\<rparr>
      in
      run_bind (run_emit CudnnBenchmark) (\<lambda>_.
      run_bind (run_emit (LogInfo ''Loading model'')) (\<lambda>_.
      run_bind (run_emit (LoadModel ''resnet50'')) (\<lambda>_.
      run_bind (run_emit ModelCuda) (\<lambda>_.
      run_bind (run_lift (lookup_hvd g)) (\<lambda>h.
      run_bind (run_emit (BroadcastParameters 0)) (\<lambda>_.
      run_bind (run_lift (lookup_hvd g)) (\<lambda>h.
      run_bind (run_emit (MakeSGD (hvd_size h))) (\<lambda>_.
      run_bind (run_lift (lookup_hvd g)) (\<lambda>h.
      run_bind (run_emit DistributedOptimizer) (\<lambda>_.
      epochs_loop w train_loader [0..<EPOCHS])))))))))))))))))"

subsection \<open>Reading a trace\<close>

definition is_broadcast :: "'v event \<Rightarrow> bool" where
  "is_broadcast ev = (case ev of BroadcastParameters root_rank \<Rightarrow> True | _ \<Rightarrow> False)"

text \<open>The calls of \<^verbatim>\<open>hvd.broadcast_parameters\<close> in a trace, in order.\<close>

definition broadcast_calls :: "'v event list \<Rightarrow> 'v event list" where
  "broadcast_calls tr = filter is_broadcast tr"

text \<open>The events of a trace before its first broadcast (all of them when there is none).\<close>

definition before_broadcast :: "'v event list \<Rightarrow> 'v event list" where
  "before_broadcast tr = takeWhile (\<lambda>ev. \<not> is_broadcast ev) tr"

subsection \<open>Example runs\<close>

text \<open>
  A small installation: two replicas, of which this process is rank 1; a training manifest
  of three rows and a validation manifest of one row under \<^verbatim>\<open>/data\<close>; the image
  \<^verbatim>\<open>b.jpg\<close> is an empty file that does not decode, and every other file is missing.
  Decoded images are numbers here.
\<close>

definition demo_world :: "nat world" where
  "demo_world =
     \<lparr>getenv = [''DISTRIBUTED'' \<mapsto> ''True'', ''AZ_BATCHAI_INPUT_TRAIN'' \<mapsto> ''/data'',
                ''AZ_BATCHAI_INPUT_TEST'' \<mapsto> ''/data''],
      horovod = \<lparr>hvd_rank = 1, hvd_size = 2, hvd_local_rank = 1\<rparr>,
      read_csv = (\<lambda>p.
        if p = ''/data/train.csv''
        then Inr [\<lparr>filenames = ''a.jpg'', num_id = 1\<rparr>, \<lparr>filenames = ''b.jpg'', num_id = 2\<rparr>,
                  \<lparr>filenames = ''c.jpg'', num_id = 1\<rparr>]
        else if p = ''/data/validation.csv''
        then Inr [\<lparr>filenames = ''v.jpg'', num_id = 3\<rparr>]
        else Inl (OSError p)),
      open_rb = (\<lambda>p.
        if p = ''/data/train/a.jpg'' then Inr ''aaaa''
        else if p = ''/data/train/b.jpg'' then Inr []
        else if p = ''/data/train/c.jpg'' then Inr ''cc''
        else Inl (OSError p)),
      Image_open = (\<lambda>content.
        if content = [] then Inl (ExternalError ''cannot identify image file'')
        else Inr (length content)),
      convert_RGB = (\<lambda>im. Inr im),
      train_transform = (\<lambda>im. Inr (im + 100)),
      randperm = (\<lambda>seed n. rev [0..<n])\<rparr>"

text \<open>The same installation started without the \<^verbatim>\<open>DISTRIBUTED\<close> variable.\<close>

definition single_world :: "nat world" where
  "single_world = demo_world\<lparr>getenv := (getenv demo_world)(''DISTRIBUTED'' := None)\<rparr>"

text \<open>The same installation with no manifest on the disk.\<close>

definition no_manifest_world :: "nat world" where
  "no_manifest_world = demo_world\<lparr>read_csv := (\<lambda>p. Inl (OSError p))\<rparr>"

text \<open>
  A dataset over the example's image directory, with a fourth entry whose file is missing.
\<close>

definition demo_dataset :: "nat ImageNet" where
  "demo_dataset =
     \<lparr>img_locs = [''/data/train/a.jpg'', ''/data/train/b.jpg'', ''/data/train/c.jpg'',
                  ''/data/train/d.jpg''],
      labels = [0, 1, 0, 5],
      transform = Some (\<lambda>im. Inr (im + 100))\<rparr>"

section \<open>The flag parser\<close>

lemma of_char_t: "(of_char (CHR ''t'') :: nat) = 116" "(of_char (CHR ''T'') :: nat) = 84"
  by simp_all

lemma lower_char_eq_t: "lower_char c = CHR ''t'' \<longleftrightarrow> c = CHR ''t'' \<or> c = CHR ''T''"
proof -
  have bound: "(of_char c :: nat) < 256"
    by simp
  have "(lower_char c = CHR ''t'') = ((of_char (lower_char c) :: nat) = 116)"
    by (metis of_char_t(1) of_char_eq_iff)
  also have "\<dots> = ((of_char c :: nat) = 116 \<or> (of_char c :: nat) = 84)"
    using bound by (auto simp: lower_char_def Let_def)
  also have "\<dots> = (c = CHR ''t'' \<or> c = CHR ''T'')"
    by (metis of_char_t of_char_eq_iff)
  finally show ?thesis .
qed

lemma t_in_lower: "CHR ''t'' \<in> set (lower s) \<longleftrightarrow> CHR ''t'' \<in> set s \<or> CHR ''T'' \<in> set s"
proof -
  have "CHR ''t'' \<in> set (lower s) \<longleftrightarrow> (\<exists>c \<in> set s. lower_char c = CHR ''t'')"
    unfolding lower_def set_map image_iff by metis
  then show ?thesis
    by (auto simp: lower_char_eq_t)
qed

text \<open>
  C9. For every string \<open>s\<close>, \<^verbatim>\<open>_str_to_bool(s)\<close> is true exactly when the character
  \<open>t\<close> occurs in \<^verbatim>\<open>s.lower()\<close>, that is when \<open>s\<close> holds a \<open>t\<close> or a \<open>T\<close>. So
  \<^verbatim>\<open>'1'\<close>, \<^verbatim>\<open>'yes'\<close> and \<^verbatim>\<open>'on'\<close> parse as false, while \<^verbatim>\<open>'not'\<close> and
  \<^verbatim>\<open>'nothing'\<close> parse as true.
\<close>

theorem str_to_bool_iff_t:
  "str_to_bool s = (CHR ''t'' \<in> set (lower s))
   \<and> str_to_bool s = (CHR ''t'' \<in> set s \<or> CHR ''T'' \<in> set s)
   \<and> str_to_bool ''1'' = False \<and> str_to_bool ''yes'' = False \<and> str_to_bool ''on'' = False
   \<and> str_to_bool ''not'' = True \<and> str_to_bool ''nothing'' = True"
proof -
  have general: "str_to_bool s = (CHR ''t'' \<in> set (lower s))"
    by (simp add: str_to_bool_def)
  have examples: "str_to_bool ''1'' = False" "str_to_bool ''yes'' = False"
    "str_to_bool ''on'' = False" "str_to_bool ''not'' = True" "str_to_bool ''nothing'' = True"
    by (simp_all add: str_to_bool_def t_in_lower)
  from general examples show ?thesis
    by (simp add: t_in_lower)
qed

section \<open>The distributed sampler\<close>

lemma shard_len_covers:
  assumes "0 < w"
  shows "n \<le> shard_len n w * w"
proof -
  define q r where "q = (n + w - 1) div w" and "r = (n + w - 1) mod w"
  have "r < w"
    using assms by (simp add: r_def)
  moreover have "q * w + r = n + w - 1"
    by (simp add: q_def r_def)
  ultimately have "n \<le> q * w"
    by linarith
  then show ?thesis
    by (simp add: shard_len_def q_def)
qed

lemma shard_len_tight:
  assumes "0 < w"
  shows "shard_len n w * w < n + w"
proof -
  define q where "q = (n + w - 1) div w"
  have "q * w \<le> n + w - 1"
    by (simp add: q_def)
  with assms have "q * w < n + w"
    by linarith
  then show ?thesis
    by (simp add: shard_len_def q_def)
qed

lemma shard_len_ceil:
  assumes "0 < w"
  shows "shard_len n w = nat \<lceil>real n / real w\<rceil>"
proof -
  have "\<lceil>real n / real w\<rceil> = int (shard_len n w)"
  proof (rule ceiling_unique)
    have "real (shard_len n w * w) < real (n + w)"
      using shard_len_tight [OF assms, of n] by (simp only: of_nat_less_iff)
    then have "(real (shard_len n w) - 1) * real w < real n"
      by (simp add: algebra_simps)
    then show "real_of_int (int (shard_len n w)) - 1 < real n / real w"
      using assms by (simp add: pos_less_divide_eq)
    have "real n \<le> real (shard_len n w * w)"
      using shard_len_covers [OF assms, of n] by (simp only: of_nat_le_iff)
    then show "real n / real w \<le> real_of_int (int (shard_len n w))"
      using assms by (simp add: pos_divide_le_eq)
  qed
  then show ?thesis
    by simp
qed

lemma shard_len_pos: "0 < w \<Longrightarrow> 0 < n \<Longrightarrow> 0 < shard_len n w"
  by (simp add: shard_len_def div_greater_zero_iff)

lemma length_wrap_around: "p \<noteq> [] \<Longrightarrow> length (wrap_around p k) = k"
proof -
  assume "p \<noteq> []"
  then have "1 \<le> length p" by (cases p) simp_all
  then have "k * 1 \<le> k * length p" by (rule mult_le_mono2)
  then show ?thesis
    by (simp add: wrap_around_def length_concat sum_list_replicate)
qed

lemma set_wrap_around: "set (wrap_around p k) \<subseteq> set p"
proof
  fix x assume "x \<in> set (wrap_around p k)"
  then have "x \<in> set (concat (replicate k p))"
    unfolding wrap_around_def by (rule in_set_takeD)
  then show "x \<in> set p" by (auto split: if_splits)
qed

text \<open>When the padding is no longer than the permutation, it is a plain prefix of it.\<close>

lemma wrap_around_short: "k \<le> length p \<Longrightarrow> wrap_around p k = take k p"
  by (cases k) (simp_all add: wrap_around_def)

lemma set_pad_permutation: "set (pad_permutation p w) = set p"
  using set_wrap_around [of p] by (auto simp: pad_permutation_def)

lemma length_pad_permutation:
  "p \<noteq> [] \<Longrightarrow> 0 < w \<Longrightarrow> length (pad_permutation p w) = shard_len (length p) w * w"
  using shard_len_covers [of w "length p"]
  by (simp add: pad_permutation_def length_wrap_around)

lemma slices_cover:
  assumes "0 < L" "length xs \<le> w * L"
  shows "(\<Union>r<w. set (take L (drop (r * L) xs))) = set xs"
proof
  show "(\<Union>r<w. set (take L (drop (r * L) xs))) \<subseteq> set xs"
    by (auto dest: in_set_takeD in_set_dropD)
  show "set xs \<subseteq> (\<Union>r<w. set (take L (drop (r * L) xs)))"
  proof
    fix x assume "x \<in> set xs"
    then obtain i where i: "i < length xs" "xs ! i = x"
      by (auto simp: in_set_conv_nth)
    have r: "i div L < w"
      using i(1) assms by (simp add: less_mult_imp_div_less mult.commute)
    have idx: "i div L * L + i mod L = i"
      by simp
    have "drop (i div L * L) xs ! (i mod L) = x"
      using i by (metis add_leE div_mod_decomp nat_less_le nth_drop)
    then have "take L (drop (i div L * L) xs) ! (i mod L) = x"
      using assms(1) by simp
    moreover have "i mod L < length (take L (drop (i div L * L) xs))"
    proof -
      have "i div L * L + i mod L < length xs"
        using i(1) by (simp only: idx)
      then have "i mod L < length xs - i div L * L"
        by linarith
      moreover have "i mod L < L"
        using assms(1) by simp
      ultimately show ?thesis
        by simp
    qed
    ultimately have "x \<in> set (take L (drop (i div L * L) xs))"
      by (metis nth_mem)
    with r show "x \<in> (\<Union>r<w. set (take L (drop (r * L) xs)))"
      by blast
  qed
qed

lemma slice_disjoint:
  assumes "distinct xs" "a + L \<le> b"
  shows "set (take L (drop a xs)) \<inter> set (take L (drop b xs)) = {}"
proof -
  have "distinct (take b xs @ drop b xs)"
    using assms(1) by simp
  then have disj: "set (take b xs) \<inter> set (drop b xs) = {}"
    by (simp only: distinct_append)
  have "take L (drop a xs) = drop a (take (L + a) xs)"
    by (simp add: take_drop add.commute)
  then have "set (take L (drop a xs)) \<subseteq> set (take (L + a) xs)"
    by (simp add: set_drop_subset)
  also have "\<dots> \<subseteq> set (take b xs)"
    using assms(2) by (intro set_take_subset_set_take) simp
  finally have 1: "set (take L (drop a xs)) \<subseteq> set (take b xs)" .
  have 2: "set (take L (drop b xs)) \<subseteq> set (drop b xs)"
    by (rule set_take_subset)
  from 1 2 disj show ?thesis by blast
qed

lemma is_permutation_length:
  assumes "is_permutation p n"
  shows "length p = n"
proof -
  from assms have d: "distinct p" and s: "set p = {0..<n}"
    by (simp_all add: is_permutation_def)
  from d have "length p = card (set p)"
    by (simp add: distinct_card)
  also have "\<dots> = n"
    by (simp add: s)
  finally show ?thesis .
qed


lemma order_for_split:
  "order_for perm n w r e =
     unpadded_shard perm n w r e
     @ take (shard_len n w - length (unpadded_shard perm n w r e))
         (drop (r * shard_len n w - length (perm e n))
            (wrap_around (perm e n) (shard_len (length (perm e n)) w * w - length (perm e n))))"
  by (simp add: order_for_def unpadded_shard_def pad_permutation_def Let_def min_def)

text \<open>
  C1. For every world size \<open>w \<ge> 1\<close>, every number of samples \<open>n \<ge> 1\<close> and any fixed
  epoch, each rank's shard has length \<open>ceil(n / w)\<close>, and the union of the shards of all
  ranks (as sets, so that the wrap-around padding is counted once) is the full set of
  positions \<open>[0, n)\<close>. The permutation of the epoch is any permutation of the positions.
\<close>

theorem sampler_shards_cover:
  assumes "1 \<le> w" and "1 \<le> n"
    and "is_permutation (perm e n) n"
  shows "(\<forall>r < w.
            length (order_for perm n w r e)
              = nat \<lceil>real n / real w\<rceil>)
         \<and> (\<Union>r < w. set (order_for perm n w r e))
              = {0..<n}"
proof -
  define p where "p = perm e n"
  define L where "L = shard_len n w"
  have w_pos: "0 < w" and n_pos: "0 < n"
    using assms(1,2) by simp_all
  have len_p: "length p = n"
    using assms(3) by (simp add: p_def is_permutation_length)
  then have "p \<noteq> []"
    using n_pos by auto
  then have len_pad: "length (pad_permutation p w) = L * w"
    using w_pos by (simp add: length_pad_permutation len_p L_def)
  have L_pos: "0 < L"
    using w_pos n_pos by (simp add: L_def shard_len_pos)
  have order: "\<And>r. order_for perm n w r e
                  = take L (drop (r * L) (pad_permutation p w))"
    by (simp add: order_for_def p_def L_def)
  have lengths: "\<forall>r < w. length (order_for perm n w r e) = L"
  proof (intro allI impI)
    fix r assume "r < w"
    then have "Suc r \<le> w" by simp
    then have "Suc r * L \<le> w * L" by (rule mult_le_mono1)
    then have "L \<le> L * w - r * L"
      by (simp add: mult.commute)
    then show "length (order_for perm n w r e) = L"
      by (simp add: order len_pad)
  qed
  have "(\<Union>r < w. set (order_for perm n w r e))
          = set (pad_permutation p w)"
    unfolding order using L_pos by (intro slices_cover) (simp_all add: len_pad mult.commute)
  also have "\<dots> = {0..<n}"
    using assms(3) by (simp add: set_pad_permutation p_def is_permutation_def)
  finally have cover: "(\<Union>r < w. set (order_for perm n w r e))
          = {0..<n}" .
  from lengths cover show ?thesis
    using w_pos by (simp add: L_def shard_len_ceil)
qed

lemma perm10_ok: "is_permutation (perm10 0 10) 10"
  unfolding is_permutation_def perm10_def by code_simp

text \<open>
  C2. For two distinct ranks with the same world size and the same epoch, the un-padded
  shards are disjoint sets of positions. Each un-padded shard is the front part of the
  rank's shard; what follows it in the shard is padding.
\<close>

theorem unpadded_shards_disjoint:
  assumes "r1 \<noteq> r2" and "is_permutation (perm e n) n"
  shows "set (unpadded_shard perm n w r1 e)
           \<inter> set (unpadded_shard perm n w r2 e) = {}
         \<and> prefix (unpadded_shard perm n w r1 e)
              (order_for perm n w r1 e)
         \<and> prefix (unpadded_shard perm n w r2 e)
              (order_for perm n w r2 e)"
proof -
  define p where "p = perm e n"
  define L where "L = shard_len n w"
  have d: "distinct p"
    using assms(2) by (simp add: p_def is_permutation_def)
  have ordered: "set (take L (drop (a * L) p)) \<inter> set (take L (drop (b * L) p)) = {}"
    if "a < b" for a b
  proof -
    from that have "Suc a \<le> b" by simp
    then have "Suc a * L \<le> b * L" by (rule mult_le_mono1)
    then have "a * L + L \<le> b * L" by simp
    with d show ?thesis by (rule slice_disjoint)
  qed
  have "set (take L (drop (r1 * L) p)) \<inter> set (take L (drop (r2 * L) p)) = {}"
  proof (cases "r1 < r2")
    case True
    then show ?thesis by (rule ordered)
  next
    case False
    with assms(1) have "r2 < r1" by simp
    then have "set (take L (drop (r2 * L) p)) \<inter> set (take L (drop (r1 * L) p)) = {}"
      by (rule ordered)
    then show ?thesis by blast
  qed
  then have disj: "set (unpadded_shard perm n w r1 e)
           \<inter> set (unpadded_shard perm n w r2 e) = {}"
    by (simp add: unpadded_shard_def p_def L_def)
  have pre: "\<And>r. prefix (unpadded_shard perm n w r e)
              (order_for perm n w r e)"
    by (subst order_for_split) simp
  from disj pre show ?thesis by simp
qed


lemma sampler_iter_set_epoch:
  "sampler_iter perm (set_epoch s e) = order_for perm (total_samples s) (world_size s) (rank s) e"
  by (simp add: sampler_iter_def set_epoch_def)

text \<open>
  In \<^verbatim>\<open>main\<close>'s epoch loop the cursor is set before the loader is walked, so the batches of
  epoch \<open>ep\<close> are cut from the sampler's order for \<open>ep\<close>.
\<close>

lemma loader_iter_set_epoch:
  "loader_iter w (loader\<lparr>sampler := set_epoch (sampler loader) ep\<rparr>)
     = batches (batch_size loader)
         (order_for (randperm w) (total_samples (sampler loader)) (world_size (sampler loader))
            (rank (sampler loader)) ep)"
  by (simp add: loader_iter_def sampler_iter_set_epoch)






theorem sampler_shards_cover_witness:
  "(1::nat) \<le> 3 \<and> (1::nat) \<le> 10 \<and> is_permutation (perm10 0 10) 10
   \<and> length (order_for perm10 10 3 0 0) = 4
   \<and> length (order_for perm10 10 3 1 0) = 4
   \<and> length (order_for perm10 10 3 2 0) = 4
   \<and> set (order_for perm10 10 3 0 0) \<union> set (order_for perm10 10 3 1 0)
        \<union> set (order_for perm10 10 3 2 0) = {0..<10}"
proof -
  have four: "nat \<lceil>real 10 / real 3\<rceil> = 4"
    by simp
  have three: "{..<3::nat} = {0, 1, 2}"
    by auto
  have inst: "(\<forall>r < 3. length (order_for perm10 10 3 r 0) = 4)
      \<and> (\<Union>r < 3. set (order_for perm10 10 3 r 0)) = {0..<10}"
    using sampler_shards_cover [of 3 10 perm10 0] perm10_ok
    by (simp only: four) simp
  then have "set (order_for perm10 10 3 0 0) \<union> set (order_for perm10 10 3 1 0)
        \<union> set (order_for perm10 10 3 2 0) = {0..<10}"
    by (simp only: three) (simp add: Un_assoc)
  with inst perm10_ok show ?thesis
    by simp
qed

theorem unpadded_shards_disjoint_witness:
  "(0::nat) \<noteq> 2 \<and> is_permutation (perm10 0 10) 10
   \<and> set (unpadded_shard perm10 10 3 0 0) \<inter> set (unpadded_shard perm10 10 3 2 0) = {}
   \<and> unpadded_shard perm10 10 3 0 0 = [7, 2, 9, 0]
   \<and> unpadded_shard perm10 10 3 2 0 = [3, 6]
   \<and> order_for perm10 10 3 2 0 = [3, 6, 7, 2]"
proof -
  have a: "unpadded_shard perm10 10 3 0 0 = [7, 2, 9, 0]"
    by code_simp
  have b: "unpadded_shard perm10 10 3 2 0 = [3, 6]"
    by code_simp
  have c: "order_for perm10 10 3 2 0 = [3, 6, 7, 2]"
    by code_simp
  have d: "(0::nat) \<noteq> 2"
    by simp
  from unpadded_shards_disjoint [of 0 2 perm10 0 10 3] a b c d perm10_ok show ?thesis
    by simp
qed


section \<open>Runs\<close>

lemma run_bind_ret [simp]: "run_bind (run_ret x) f = f x"
  by (simp add: run_bind_def run_ret_def)

lemma run_bind_emit [simp]: "run_bind (run_emit ev) f = (ev # fst (f ()), snd (f ()))"
  by (simp add: run_bind_def run_emit_def)

lemma run_bind_lift_Inr [simp]: "run_bind (run_lift (Inr x)) f = f x"
  by (simp add: run_bind_def run_lift_def)

lemma run_bind_lift_Inl [simp]: "run_bind (run_lift (Inl e)) f = ([], Inl e)"
  by (simp add: run_bind_def run_lift_def)

lemma fst_run_bind:
  "fst (run_bind m f) = fst m @ (case snd m of Inl e \<Rightarrow> [] | Inr x \<Rightarrow> fst (f x))"
  by (simp add: run_bind_def split: sum.splits)

lemma snd_run_bind:
  "snd (run_bind m f) = (case snd m of Inl e \<Rightarrow> Inl e | Inr x \<Rightarrow> snd (f x))"
  by (simp add: run_bind_def split: sum.splits)

lemma snd_run_bind_Inr:
  "snd (run_bind m f) = Inr y \<longleftrightarrow> (\<exists>x. snd m = Inr x \<and> snd (f x) = Inr y)"
  by (simp add: snd_run_bind split: sum.splits)

lemma snd_run_lift [simp]: "snd (run_lift r) = r" and fst_run_lift [simp]: "fst (run_lift r) = []"
  by (simp_all add: run_lift_def)

lemma snd_run_emit [simp]: "snd (run_emit ev) = Inr ()" and fst_run_emit [simp]: "fst (run_emit ev) = [ev]"
  by (simp_all add: run_emit_def)

lemma snd_run_ret [simp]: "snd (run_ret x) = Inr x" and fst_run_ret [simp]: "fst (run_ret x) = []"
  by (simp_all add: run_ret_def)

section \<open>Loading\<close>

lemma assign_filenames_map:
  "assign_filenames df (append_path_to dp (map filenames df))
     = map (\<lambda>r. r\<lparr>filenames := path_join dp (filenames r)\<rparr>) df"
  unfolding assign_filenames_def append_path_to_def
  by (induction df) simp_all

lemma load_training_Inr:
  assumes "snd (load_training w data_dir) = Inr df"
  shows "\<exists>dir train_df. data_dir = Some dir
           \<and> read_csv w (path_join dir ''train.csv'') = Inr train_df
           \<and> df = map (\<lambda>r. r\<lparr>filenames := path_join (path_join dir ''train'') (filenames r)\<rparr>) train_df"
proof (cases data_dir)
  case None
  with assms show ?thesis
    by (simp add: load_training_def path_join_py_def)
next
  case (Some dir)
  with assms show ?thesis
    by (cases "read_csv w (path_join dir ''train.csv'')")
       (simp_all add: load_training_def path_join_py_def assign_filenames_map)
qed

lemma load_validation_Inr:
  assumes "snd (load_validation w data_dir) = Inr df"
  shows "\<exists>dir train_df. data_dir = Some dir
           \<and> read_csv w (path_join dir ''validation.csv'') = Inr train_df
           \<and> df = map (\<lambda>r. r\<lparr>filenames := path_join (path_join dir ''validation'') (filenames r)\<rparr>) train_df"
proof (cases data_dir)
  case None
  with assms show ?thesis
    by (simp add: load_validation_def path_join_py_def)
next
  case (Some dir)
  with assms show ?thesis
    by (cases "read_csv w (path_join dir ''validation.csv'')")
       (simp_all add: load_validation_def path_join_py_def assign_filenames_map)
qed

lemma sint_pred_int64:
  fixes k :: "64 word"
  assumes "1 \<le> sint k"
  shows "sint (k - 1) = sint k - 1"
proof -
  have "sint k < 2 ^ 63"
    using sint_lt [of k] by simp
  with assms have "- (2 ^ 63) \<le> sint k - 1" "sint k - 1 < 2 ^ 63"
    by simp_all
  then have "signed_take_bit 63 (sint k - 1) = sint k - 1"
    by (simp add: signed_take_bit_int_eq_self)
  then show ?thesis
    by (simp add: sint_word_ariths)
qed

text \<open>
  C7. Whenever \<^verbatim>\<open>_create_data_fn\<close> returns, both directories were given, both manifests
  were read, and for every row of the training manifest and of the validation manifest the
  returned label is the row's class id minus one and the returned path is the split's image
  directory (\<^verbatim>\<open>train\<close> or \<^verbatim>\<open>validation\<close> under the given directory) joined with the
  row's file name. For a 1-based class id \<open>k \<ge> 1\<close> the int64 subtraction does not wrap, so
  the label is \<open>k - 1\<close> as a number.
\<close>

theorem create_data_fn_labels_paths:
  assumes "snd (create_data_fn w train_path test_path) = Inr (train_X, train_y, valid_X, valid_y)"
  shows "\<exists>train_dir test_dir train_df validation_df.
      train_path = Some train_dir \<and> test_path = Some test_dir
      \<and> read_csv w (path_join train_dir ''train.csv'') = Inr train_df
      \<and> read_csv w (path_join test_dir ''validation.csv'') = Inr validation_df
      \<and> train_X = map (\<lambda>r. path_join (path_join train_dir ''train'') (filenames r)) train_df
      \<and> train_y = map (\<lambda>r. num_id r - 1) train_df
      \<and> valid_X = map (\<lambda>r. path_join (path_join test_dir ''validation'') (filenames r)) validation_df
      \<and> valid_y = map (\<lambda>r. num_id r - 1) validation_df
      \<and> (\<forall>r \<in> set train_df \<union> set validation_df.
            1 \<le> sint (num_id r) \<longrightarrow> sint (num_id r - 1) = sint (num_id r) - 1)"
proof -
  from assms obtain df1 df2 where
    l1: "snd (load_training w train_path) = Inr df1" and
    l2: "snd (load_validation w test_path) = Inr df2" and
    res: "train_X = map filenames df1" "train_y = map (\<lambda>k. k - 1) (map num_id df1)"
         "valid_X = map filenames df2" "valid_y = map (\<lambda>k. k - 1) (map num_id df2)"
    by (auto simp: create_data_fn_def snd_run_bind Let_def split: sum.splits)
  from load_training_Inr [OF l1] obtain train_dir train_df where
    t: "train_path = Some train_dir" "read_csv w (path_join train_dir ''train.csv'') = Inr train_df"
       "df1 = map (\<lambda>r. r\<lparr>filenames := path_join (path_join train_dir ''train'') (filenames r)\<rparr>) train_df"
    by blast
  from load_validation_Inr [OF l2] obtain test_dir validation_df where
    v: "test_path = Some test_dir" "read_csv w (path_join test_dir ''validation.csv'') = Inr validation_df"
       "df2 = map (\<lambda>r. r\<lparr>filenames := path_join (path_join test_dir ''validation'') (filenames r)\<rparr>) validation_df"
    by blast
  have "train_X = map (\<lambda>r. path_join (path_join train_dir ''train'') (filenames r)) train_df"
    "train_y = map (\<lambda>r. num_id r - 1) train_df"
    "valid_X = map (\<lambda>r. path_join (path_join test_dir ''validation'') (filenames r)) validation_df"
    "valid_y = map (\<lambda>r. num_id r - 1) validation_df"
    by (simp_all add: res t(3) v(3) comp_def)
  with t(1,2) v(1,2) show ?thesis
    by (auto simp: sint_pred_int64)
qed


theorem create_data_fn_labels_paths_witness:
  "snd (create_data_fn demo_world (Some ''/data'') (Some ''/data''))
     = Inr ([''/data/train/a.jpg'', ''/data/train/b.jpg'', ''/data/train/c.jpg''], [0, 1, 0],
            [''/data/validation/v.jpg''], [2])
   \<and> (\<exists>train_df validation_df.
         read_csv demo_world ''/data/train.csv'' = Inr train_df
         \<and> read_csv demo_world ''/data/validation.csv'' = Inr validation_df
         \<and> [0, 1, 0] = map (\<lambda>r. num_id r - 1) train_df
         \<and> [2] = map (\<lambda>r. num_id r - 1) validation_df)"
proof -
  have run: "snd (create_data_fn demo_world (Some ''/data'') (Some ''/data''))
     = Inr ([''/data/train/a.jpg'', ''/data/train/b.jpg'', ''/data/train/c.jpg''], [0, 1, 0],
            [''/data/validation/v.jpg''], [2])"
    by code_simp
  have paths: "path_join ''/data'' ''train.csv'' = ''/data/train.csv''"
    "path_join ''/data'' ''validation.csv'' = ''/data/validation.csv''"
    by (simp_all add: path_join_def)
  from create_data_fn_labels_paths [OF run]
  obtain train_dir test_dir train_df validation_df where
    dirs: "Some ''/data'' = Some train_dir" "Some ''/data'' = Some test_dir" and
    read: "read_csv demo_world (path_join train_dir ''train.csv'') = Inr train_df"
      "read_csv demo_world (path_join test_dir ''validation.csv'') = Inr validation_df" and
    lab: "[0, 1, 0] = map (\<lambda>r. num_id r - 1) train_df"
      "[2] = map (\<lambda>r. num_id r - 1) validation_df"
    by (elim exE conjE) (rule that, assumption+)
  from dirs have "train_dir = ''/data''" "test_dir = ''/data''"
    by simp_all
  with read have "read_csv demo_world ''/data/train.csv'' = Inr train_df"
    "read_csv demo_world ''/data/validation.csv'' = Inr validation_df"
    by (simp_all only: paths)
  with lab have "\<exists>train_df validation_df.
         read_csv demo_world ''/data/train.csv'' = Inr train_df
         \<and> read_csv demo_world ''/data/validation.csv'' = Inr validation_df
         \<and> [0, 1, 0] = map (\<lambda>r. num_id r - 1) train_df
         \<and> [2] = map (\<lambda>r. num_id r - 1) validation_df"
    by (intro exI conjI)
  with run show ?thesis
    by (rule conjI)
qed

section \<open>The dataset\<close>

text \<open>
  C8. When \<^verbatim>\<open>ImageNet.__getitem__\<close> is called on a position whose file cannot be opened,
  decoded, converted or transformed, the call ends with that very exception; and whenever
  it returns a pair, the pair is the label of that position and the image that was read
  from that position's file, decoded, converted and transformed: no failure is swallowed,
  no sample is skipped and no substitute is returned.
\<close>

theorem getitem_propagates:
  assumes "np_index (img_locs self) idx = Inr im_file"
    and "np_index (labels self) idx = Inr label"
  shows "(open_rb w im_file = Inl e \<longrightarrow> snd (getitem w self idx) = Inl e)
    \<and> (\<forall>f. open_rb w im_file = Inr f \<and> Image_open w f = Inl e
          \<longrightarrow> snd (getitem w self idx) = Inl e)
    \<and> (\<forall>f im. open_rb w im_file = Inr f \<and> Image_open w f = Inr im \<and> convert_RGB w im = Inl e
          \<longrightarrow> snd (getitem w self idx) = Inl e)
    \<and> (\<forall>f im rgb t. open_rb w im_file = Inr f \<and> Image_open w f = Inr im
            \<and> convert_RGB w im = Inr rgb \<and> transform self = Some t \<and> t rgb = Inl e
          \<longrightarrow> snd (getitem w self idx) = Inl e)
    \<and> (\<forall>x l. snd (getitem w self idx) = Inr (x, l)
          \<longrightarrow> l = label
            \<and> (\<exists>f im rgb. open_rb w im_file = Inr f \<and> Image_open w f = Inr im
                  \<and> convert_RGB w im = Inr rgb
                  \<and> (case transform self of None \<Rightarrow> x = rgb | Some t \<Rightarrow> t rgb = Inr x)))"
proof (intro conjI allI impI)
  show "snd (getitem w self idx) = Inl e" if "open_rb w im_file = Inl e"
    using assms that by (simp add: getitem_def)
  show "snd (getitem w self idx) = Inl e"
    if "open_rb w im_file = Inr f \<and> Image_open w f = Inl e" for f
    using assms that by (simp add: getitem_def)
  show "snd (getitem w self idx) = Inl e"
    if "open_rb w im_file = Inr f \<and> Image_open w f = Inr im \<and> convert_RGB w im = Inl e" for f im
    using assms that by (simp add: getitem_def)
  show "snd (getitem w self idx) = Inl e"
    if "open_rb w im_file = Inr f \<and> Image_open w f = Inr im
            \<and> convert_RGB w im = Inr rgb \<and> transform self = Some t \<and> t rgb = Inl e" for f im rgb t
    using assms that by (simp add: getitem_def)
next
  fix x l
  assume ok: "snd (getitem w self idx) = Inr (x, l)"
  from ok assms obtain f where f: "open_rb w im_file = Inr f"
    by (cases "open_rb w im_file") (simp_all add: getitem_def)
  from ok assms f obtain im where im: "Image_open w f = Inr im"
    by (cases "Image_open w f") (simp_all add: getitem_def)
  from ok assms f im obtain rgb where rgb: "convert_RGB w im = Inr rgb"
    by (cases "convert_RGB w im") (simp_all add: getitem_def)
  from ok assms f im rgb
  have "l = label \<and> (case transform self of None \<Rightarrow> x = rgb | Some t \<Rightarrow> t rgb = Inr x)"
    by (cases "transform self")
       (auto simp: getitem_def run_lift_def run_bind_def run_ret_def split: sum.splits)
  with f im rgb show "l = label" and
    "\<exists>f im rgb. open_rb w im_file = Inr f \<and> Image_open w f = Inr im
        \<and> convert_RGB w im = Inr rgb
        \<and> (case transform self of None \<Rightarrow> x = rgb | Some t \<Rightarrow> t rgb = Inr x)"
    by blast+
qed


theorem getitem_propagates_witness:
  "np_index (img_locs demo_dataset) 3 = Inr ''/data/train/d.jpg''
   \<and> np_index (labels demo_dataset) 3 = Inr 5
   \<and> open_rb demo_world ''/data/train/d.jpg'' = Inl (OSError ''/data/train/d.jpg'')
   \<and> snd (getitem demo_world demo_dataset 3) = Inl (OSError ''/data/train/d.jpg'')"
proof -
  have loc: "np_index (img_locs demo_dataset) 3 = Inr ''/data/train/d.jpg''"
    by (simp add: np_index_def demo_dataset_def)
  have lab: "np_index (labels demo_dataset) 3 = Inr 5"
    by (simp add: np_index_def demo_dataset_def)
  have missing: "open_rb demo_world ''/data/train/d.jpg'' = Inl (OSError ''/data/train/d.jpg'')"
    by (simp add: demo_world_def)
  from getitem_propagates [OF loc lab, of demo_world "OSError ''/data/train/d.jpg''"]
  have "open_rb demo_world ''/data/train/d.jpg'' = Inl (OSError ''/data/train/d.jpg'')
          \<longrightarrow> snd (getitem demo_world demo_dataset 3) = Inl (OSError ''/data/train/d.jpg'')"
    by (rule conjunct1)
  from this missing have "snd (getitem demo_world demo_dataset 3) = Inl (OSError ''/data/train/d.jpg'')"
    by (rule mp)
  with loc lab missing show ?thesis
    by (intro conjI)
qed

section \<open>The shape of a run of main\<close>

lemma run_bind_pair_Inl [simp]: "run_bind (tr, Inl e) f = (tr, Inl e)"
  by (simp add: run_bind_def)

lemma run_bind_pair_Inr [simp]: "run_bind (tr, Inr x) f = (tr @ fst (f x), snd (f x))"
  by (simp add: run_bind_def)

lemma lookup_hvd_globals:
  "lookup_hvd (module_globals w) =
     (if DISTRIBUTED (module_globals w) then Inr (horovod w) else Inl (NameError ''hvd''))"
  by (simp add: lookup_hvd_def module_globals_def Let_def)

lemma main_single:
  assumes "\<not> DISTRIBUTED (module_globals w)"
  shows "main w =
    (case create_data_fn w (getenv w ''AZ_BATCHAI_INPUT_TRAIN'') (getenv w ''AZ_BATCHAI_INPUT_TEST'') of
       (tr, Inl e) \<Rightarrow> (LogInfo ''PyTorch version'' # tr, Inl e)
     | (tr, Inr (train_X, train_y, valid_X, valid_y)) \<Rightarrow>
         (LogInfo ''PyTorch version'' # tr
            @ [LogInfo ''Setting up loaders'', LogLoaded (length train_y) (length train_X)],
          Inl (NameError ''hvd'')))"
  using assms
  by (simp add: main_def Let_def lookup_hvd_globals ImageNet_init_def
           split: prod.splits sum.splits)

lemma main_distributed:
  assumes "DISTRIBUTED (module_globals w)"
  shows "main w =
    (case create_data_fn w (getenv w ''AZ_BATCHAI_INPUT_TRAIN'') (getenv w ''AZ_BATCHAI_INPUT_TEST'') of
       (tr, Inl e) \<Rightarrow>
         ([LogInfo ''Runnin Distributed'', HvdInit, TorchManualSeed SEED,
           CudaSetDevice (hvd_local_rank (horovod w)), CudaManualSeed SEED,
           LogInfo ''PyTorch version''] @ tr, Inl e)
     | (tr, Inr (train_X, train_y, valid_X, valid_y)) \<Rightarrow>
         (let train_loader =
                \<lparr>dataset = \<lparr>img_locs = train_X, labels = train_y,
                              transform = Some (train_transform w)\<rparr>,
                 batch_size = BATCHSIZE,
                 sampler = DistributedSampler (length train_X) (hvd_size (horovod w))
                             (hvd_rank (horovod w))\<rparr>
          in ([LogInfo ''Runnin Distributed'', HvdInit, TorchManualSeed SEED,
               CudaSetDevice (hvd_local_rank (horovod w)), CudaManualSeed SEED,
               LogInfo ''PyTorch version''] @ tr
              @ [LogInfo ''Setting up loaders'', LogLoaded (length train_y) (length train_X),
                 CudnnBenchmark, LogInfo ''Loading model'', LoadModel ''resnet50'', ModelCuda]
              @ BroadcastParameters 0
                # [MakeSGD (hvd_size (horovod w)), DistributedOptimizer]
                @ fst (epochs_loop w train_loader [0..<EPOCHS]),
              snd (epochs_loop w train_loader [0..<EPOCHS]))))"
  using assms
  by (simp add: main_def Let_def lookup_hvd_globals ImageNet_init_def ImageNet_len_def
           split: prod.splits sum.splits)

section \<open>Which events each part of a run can produce\<close>

lemma events_load_training: "set (fst (load_training w data_dir)) \<subseteq> range ReadCsv"
  by (cases data_dir)
     (auto simp: load_training_def path_join_py_def fst_run_bind split: sum.splits)

lemma events_load_validation: "set (fst (load_validation w data_dir)) \<subseteq> range ReadCsv"
  by (cases data_dir)
     (auto simp: load_validation_def path_join_py_def fst_run_bind split: sum.splits)

lemma events_create_data_fn:
  "set (fst (create_data_fn w train_path test_path)) \<subseteq> range LogInfo \<union> range ReadCsv"
  using events_load_training [of w train_path] events_load_validation [of w test_path]
  by (auto simp: create_data_fn_def fst_run_bind Let_def split: sum.splits)

lemma events_getitem: "set (fst (getitem w self idx)) \<subseteq> range OpenFile"
  by (auto simp: getitem_def fst_run_bind split: sum.splits option.splits)

lemma events_fetch: "set (fst (fetch w ds positions)) \<subseteq> range OpenFile"
proof (induction positions)
  case Nil
  show ?case by simp
next
  case (Cons i rest)
  with events_getitem [of w ds "int i"] show ?case
    by (auto simp: fst_run_bind split: sum.splits)
qed

lemma broadcast_calls_train_loop: "broadcast_calls (fst (train_loop w ds ep i bs)) = []"
proof (induction bs arbitrary: i)
  case Nil
  show ?case by (simp add: broadcast_calls_def)
next
  case (Cons b rest)
  have "broadcast_calls (fst (fetch w ds b)) = []"
    using events_fetch [of w ds b]
    by (auto simp: broadcast_calls_def filter_empty_conv is_broadcast_def)
  with Cons [of "i + 1"] show ?case
    by (auto simp: broadcast_calls_def fst_run_bind is_broadcast_def split: sum.splits)
qed

lemma broadcast_calls_train: "broadcast_calls (fst (train w loader ep)) = []"
  using broadcast_calls_train_loop [of w "dataset loader" ep 0 "loader_iter w loader"]
  by (simp add: train_def broadcast_calls_def is_broadcast_def)

lemma broadcast_calls_epochs_loop: "broadcast_calls (fst (epochs_loop w loader eps)) = []"
proof (induction eps arbitrary: loader)
  case Nil
  show ?case by (simp add: broadcast_calls_def)
next
  case (Cons ep rest)
  show ?case
    using Cons [of "loader\<lparr>sampler := set_epoch (sampler loader) ep\<rparr>"]
      broadcast_calls_train [of w "loader\<lparr>sampler := set_epoch (sampler loader) ep\<rparr>" ep]
    by (auto simp: broadcast_calls_def fst_run_bind is_broadcast_def Let_def split: sum.splits)
qed


lemma quiet_create_data_fn:
  assumes "ev \<in> set (fst (create_data_fn w train_path test_path))"
  shows "\<not> is_broadcast ev \<and> ev \<noteq> OptimizerStep"
  using assms events_create_data_fn [of w train_path test_path]
  by (auto simp: is_broadcast_def)

lemma main_trace_cases:
  obtains (aborted) pre e where "main w = (pre, Inl e)"
      and "\<forall>ev \<in> set pre. \<not> is_broadcast ev \<and> ev \<noteq> OptimizerStep"
  | (trained) pre post where "fst (main w) = pre @ BroadcastParameters 0 # post"
      and "\<forall>ev \<in> set pre. \<not> is_broadcast ev \<and> ev \<noteq> OptimizerStep"
      and "broadcast_calls post = []"
proof -
  define cdf where
    "cdf = create_data_fn w (getenv w ''AZ_BATCHAI_INPUT_TRAIN'') (getenv w ''AZ_BATCHAI_INPUT_TEST'')"
  obtain tr res where cdf: "cdf = (tr, res)"
    by (cases cdf)
  have quiet: "\<forall>ev \<in> set tr. \<not> is_broadcast ev \<and> ev \<noteq> OptimizerStep"
    using quiet_create_data_fn [of _ w "getenv w ''AZ_BATCHAI_INPUT_TRAIN''" "getenv w ''AZ_BATCHAI_INPUT_TEST''"]
    by (simp add: cdf_def [symmetric] cdf)
  show thesis
  proof (cases "DISTRIBUTED (module_globals w)")
    case False
    show thesis
    proof (cases res)
      case (Inl e)
      have "main w = (LogInfo ''PyTorch version'' # tr, Inl e)"
        using False cdf Inl by (simp add: main_single cdf_def [symmetric])
      moreover have "\<forall>ev \<in> set (LogInfo ''PyTorch version'' # tr). \<not> is_broadcast ev \<and> ev \<noteq> OptimizerStep"
        using quiet by (simp add: is_broadcast_def)
      ultimately show thesis by (rule aborted)
    next
      case (Inr data)
      obtain train_X train_y valid_X valid_y where data: "data = (train_X, train_y, valid_X, valid_y)"
        by (cases data)
      have "main w = (LogInfo ''PyTorch version'' # tr
            @ [LogInfo ''Setting up loaders'', LogLoaded (length train_y) (length train_X)],
          Inl (NameError ''hvd''))"
        using False cdf Inr data by (simp add: main_single cdf_def [symmetric])
      moreover have "\<forall>ev \<in> set (LogInfo ''PyTorch version'' # tr
            @ [LogInfo ''Setting up loaders'', LogLoaded (length train_y) (length train_X)]).
            \<not> is_broadcast ev \<and> ev \<noteq> OptimizerStep"
        using quiet by (auto simp: is_broadcast_def)
      ultimately show thesis by (rule aborted)
    qed
  next
    case True
    define start :: "'a event list" where
      "start = [LogInfo ''Runnin Distributed'', HvdInit, TorchManualSeed SEED,
           CudaSetDevice (hvd_local_rank (horovod w)), CudaManualSeed SEED,
           LogInfo ''PyTorch version'']"
    have quiet_start: "\<forall>ev \<in> set start. \<not> is_broadcast ev \<and> ev \<noteq> OptimizerStep"
      by (simp add: start_def is_broadcast_def)
    show thesis
    proof (cases res)
      case (Inl e)
      have "main w = (start @ tr, Inl e)"
        using True cdf Inl by (simp add: main_distributed cdf_def [symmetric] start_def)
      moreover have "\<forall>ev \<in> set (start @ tr). \<not> is_broadcast ev \<and> ev \<noteq> OptimizerStep"
        using quiet quiet_start by auto
      ultimately show thesis by (rule aborted)
    next
      case (Inr data)
      obtain train_X train_y valid_X valid_y where data: "data = (train_X, train_y, valid_X, valid_y)"
        by (cases data)
      define prep :: "'a event list" where
        "prep = [LogInfo ''Setting up loaders'', LogLoaded (length train_y) (length train_X),
                 CudnnBenchmark, LogInfo ''Loading model'', LoadModel ''resnet50'', ModelCuda]"
      define train_loader where
        "train_loader = \<lparr>dataset = \<lparr>img_locs = train_X, labels = train_y,
                              transform = Some (train_transform w)\<rparr>,
                 batch_size = BATCHSIZE,
                 sampler = DistributedSampler (length train_X) (hvd_size (horovod w))
                             (hvd_rank (horovod w))\<rparr>"
      define post where
        "post = [MakeSGD (hvd_size (horovod w)), DistributedOptimizer]
                  @ fst (epochs_loop w train_loader [0..<EPOCHS])"
      have "fst (main w) = (start @ tr @ prep) @ BroadcastParameters 0 # post"
        using True cdf Inr data
        by (simp add: main_distributed cdf_def [symmetric] start_def prep_def post_def
              train_loader_def Let_def)
      moreover have "\<forall>ev \<in> set (start @ tr @ prep). \<not> is_broadcast ev \<and> ev \<noteq> OptimizerStep"
        using quiet quiet_start by (auto simp: prep_def is_broadcast_def)
      moreover have "broadcast_calls post = []"
        using broadcast_calls_epochs_loop [of w train_loader "[0..<EPOCHS]"]
        by (simp add: post_def broadcast_calls_def is_broadcast_def)
      ultimately show thesis by (rule trained)
    qed
  qed
qed

lemma quiet_calls:
  assumes "\<forall>ev \<in> set pre. \<not> is_broadcast ev \<and> ev \<noteq> OptimizerStep"
  shows "broadcast_calls pre = []" and "OptimizerStep \<notin> set pre"
  using assms by (auto simp: broadcast_calls_def filter_empty_conv)

lemma quiet_before:
  assumes "\<forall>ev \<in> set pre. \<not> is_broadcast ev \<and> ev \<noteq> OptimizerStep"
  shows "before_broadcast (pre @ rest) = pre @ before_broadcast rest"
  using assms by (simp add: before_broadcast_def takeWhile_append2)

text \<open>
  C5, as the code has it. In every execution of \<^verbatim>\<open>main\<close>, \<^verbatim>\<open>broadcast_parameters\<close> is
  called at most once and no optimizer step comes before it; in every execution that
  performs an optimizer step or runs to completion it is called exactly once, with root
  rank 0, before the first step.
\<close>

theorem broadcast_at_most_once_before_steps:
  "length (broadcast_calls (fst (main w))) \<le> 1
   \<and> OptimizerStep \<notin> set (before_broadcast (fst (main w)))
   \<and> (OptimizerStep \<in> set (fst (main w)) \<or> snd (main w) = Inr ()
        \<longrightarrow> broadcast_calls (fst (main w)) = [BroadcastParameters 0])"
proof (cases w rule: main_trace_cases)
  case (aborted pre e)
  from quiet_calls [OF aborted(2)] quiet_before [OF aborted(2), of "[]"]
  have "broadcast_calls pre = []" "OptimizerStep \<notin> set pre" "before_broadcast pre = pre"
    by (simp_all add: before_broadcast_def)
  with aborted(1) show ?thesis
    by simp
next
  case (trained pre post)
  from quiet_calls [OF trained(2)]
  have pre: "broadcast_calls pre = []" "OptimizerStep \<notin> set pre"
    by simp_all
  from quiet_before [OF trained(2), of "BroadcastParameters 0 # post"]
  have before: "before_broadcast (pre @ BroadcastParameters 0 # post) = pre"
    by (simp add: before_broadcast_def is_broadcast_def)
  have calls: "broadcast_calls (pre @ BroadcastParameters 0 # post) = [BroadcastParameters 0]"
    using pre(1) trained(3) by (simp add: broadcast_calls_def is_broadcast_def)
  from calls before pre(2) show ?thesis
    by (simp add: trained(1))
qed


theorem broadcast_at_most_once_before_steps_witness:
  "snd (main demo_world) = Inr ()
   \<and> broadcast_calls (fst (main demo_world)) = [BroadcastParameters 0]"
proof -
  have finished: "snd (main demo_world) = Inr ()"
    by code_simp
  from broadcast_at_most_once_before_steps [of demo_world]
  have "OptimizerStep \<in> set (fst (main demo_world)) \<or> snd (main demo_world) = Inr ()
        \<longrightarrow> broadcast_calls (fst (main demo_world)) = [BroadcastParameters 0]"
    by (elim conjE)
  moreover have "OptimizerStep \<in> set (fst (main demo_world)) \<or> snd (main demo_world) = Inr ()"
    using finished by (rule disjI2)
  ultimately have "broadcast_calls (fst (main demo_world)) = [BroadcastParameters 0]"
    by (rule mp)
  with finished show ?thesis
    by (rule conjI)
qed

text \<open>
  C5 as stated asks for exactly one broadcast in every execution of \<^verbatim>\<open>main\<close>. A run
  whose training manifest is missing ends in \<^verbatim>\<open>pd.read_csv\<close> with the file error,
  before the model is built: it has no broadcast at all.
\<close>

theorem broadcast_missing_in_aborted_run:
  "main no_manifest_world =
     ([LogInfo ''Runnin Distributed'', HvdInit, TorchManualSeed 42, CudaSetDevice 1,
       CudaManualSeed 42, LogInfo ''PyTorch version'', LogInfo ''Reading training data info'',
       ReadCsv ''/data/train.csv''],
      Inl (OSError ''/data/train.csv''))
   \<and> length (broadcast_calls (fst (main no_manifest_world))) \<noteq> 1"
proof -
  have run: "main no_manifest_world =
     ([LogInfo ''Runnin Distributed'', HvdInit, TorchManualSeed 42, CudaSetDevice 1,
       CudaManualSeed 42, LogInfo ''PyTorch version'', LogInfo ''Reading training data info'',
       ReadCsv ''/data/train.csv''],
      Inl (OSError ''/data/train.csv''))"
    by code_simp
  have "length (broadcast_calls (fst (main no_manifest_world))) \<noteq> 1"
    unfolding run by (simp add: broadcast_calls_def is_broadcast_def)
  with run show ?thesis
    by (rule conjI)
qed

text \<open>
  C4. Started without \<^verbatim>\<open>DISTRIBUTED\<close>, the module does not import Horovod, and
  \<^verbatim>\<open>main\<close> stops with \<^verbatim>\<open>NameError\<close> at \<^verbatim>\<open>hvd.size()\<close> while it builds the sampler:
  both manifests are loaded and the dataset is built, then the run ends before the loader,
  the model, the broadcast and the training loop.
\<close>

theorem main_single_replica_NameError:
  "DISTRIBUTED (module_globals single_world) = False
   \<and> main single_world =
     ([LogInfo ''PyTorch version'', LogInfo ''Reading training data info'',
       ReadCsv ''/data/train.csv'', LogInfo ''Reading validation data info'',
       ReadCsv ''/data/validation.csv'', LogInfo ''Setting up loaders'', LogLoaded 3 3],
      Inl (NameError ''hvd''))"
proof -
  have flag: "DISTRIBUTED (module_globals single_world) = False"
    by code_simp
  have run: "main single_world =
     ([LogInfo ''PyTorch version'', LogInfo ''Reading training data info'',
       ReadCsv ''/data/train.csv'', LogInfo ''Reading validation data info'',
       ReadCsv ''/data/validation.csv'', LogInfo ''Setting up loaders'', LogLoaded 3 3],
      Inl (NameError ''hvd''))"
    by code_simp
  from flag run show ?thesis
    by (rule conjI)
qed

lemma main_single_never_completes:
  assumes "\<not> DISTRIBUTED (module_globals w)"
  shows "\<exists>e. snd (main w) = Inl e"
  using assms by (auto simp: main_single split: prod.splits sum.splits)

lemma is_master_single: "is_master g False = Inr True"
  by (simp add: is_master_def)

lemma sampler_single_replica:
  assumes "is_permutation (perm e n) n"
  shows "order_for perm n 1 0 e = perm e n"
proof -
  have "length (perm e n) = n"
    using assms by (rule is_permutation_length)
  then show ?thesis
    by (simp add: order_for_def pad_permutation_def shard_len_def wrap_around_def)
qed

section \<open>The validation manifest\<close>

lemma path_join_relative:
  assumes "take 1 b \<noteq> ''/''"
  shows "\<exists>p. path_join a b = p @ b"
proof (cases "a = [] \<or> drop (length a - 1) a = ''/''")
  case True
  with assms have "path_join a b = a @ b"
    by (simp add: path_join_def)
  then show ?thesis by blast
next
  case False
  with assms have "path_join a b = (a @ ''/'') @ b"
    by (simp add: path_join_def)
  then show ?thesis by blast
qed

lemma manifest_paths_differ:
  "path_join train_dir ''train.csv'' \<noteq> path_join test_dir ''validation.csv''"
proof
  assume same: "path_join train_dir ''train.csv'' = path_join test_dir ''validation.csv''"
  obtain p where p: "path_join train_dir ''train.csv'' = p @ ''train.csv''"
    using path_join_relative [of "''train.csv''" train_dir] by auto
  obtain q where q: "path_join test_dir ''validation.csv'' = q @ ''validation.csv''"
    using path_join_relative [of "''validation.csv''" test_dir] by auto
  from same p q have "rev (p @ ''train.csv'') = rev (q @ ''validation.csv'')"
    by simp
  then have "take 9 (rev (p @ ''train.csv'')) = take 9 (rev (q @ ''validation.csv''))"
    by (rule arg_cong)
  then show False
    by simp
qed

lemma getitem_read_csv [simp]: "getitem (w\<lparr>read_csv := f\<rparr>) = getitem w"
  by (intro ext) (simp add: getitem_def)

lemma fetch_read_csv [simp]: "fetch (w\<lparr>read_csv := f\<rparr>) ds positions = fetch w ds positions"
  by (induction positions) simp_all

lemma train_loop_read_csv [simp]:
  "train_loop (w\<lparr>read_csv := f\<rparr>) ds ep i bs = train_loop w ds ep i bs"
  by (induction bs arbitrary: i) simp_all

lemma train_read_csv [simp]: "train (w\<lparr>read_csv := f\<rparr>) loader ep = train w loader ep"
  by (simp add: train_def loader_iter_def)

lemma epochs_loop_read_csv [simp]:
  "epochs_loop (w\<lparr>read_csv := f\<rparr>) loader eps = epochs_loop w loader eps"
  by (induction eps arbitrary: loader) (simp_all add: Let_def)

lemma module_globals_read_csv [simp]: "module_globals (w\<lparr>read_csv := f\<rparr>) = module_globals w"
  by (simp add: module_globals_def Let_def)

lemma load_training_other_file:
  "load_training (w\<lparr>read_csv := (read_csv w)(path_join test_dir ''validation.csv'' := r)\<rparr>) data_dir
     = load_training w data_dir"
  by (cases data_dir) (simp_all add: load_training_def path_join_py_def manifest_paths_differ)

lemma load_validation_loaded:
  assumes "read_csv w (path_join test_dir ''validation.csv'') = Inr df"
  shows "load_validation w (Some test_dir) =
     ([ReadCsv (path_join test_dir ''validation.csv'')],
      Inr (assign_filenames df
             (append_path_to (path_join test_dir ''validation'') (map filenames df))))"
  using assms by (simp add: load_validation_def path_join_py_def)

lemma create_data_fn_loaded:
  assumes "read_csv w (path_join test_dir ''validation.csv'') = Inr df"
  shows "fst (create_data_fn w train_path (Some test_dir)) =
           LogInfo ''Reading training data info'' # fst (load_training w train_path)
           @ (case snd (load_training w train_path) of
                Inl e \<Rightarrow> []
              | Inr train_df \<Rightarrow> [LogInfo ''Reading validation data info'',
                                ReadCsv (path_join test_dir ''validation.csv'')])"
    and "snd (create_data_fn w train_path (Some test_dir)) =
           (case snd (load_training w train_path) of
              Inl e \<Rightarrow> Inl e
            | Inr train_df \<Rightarrow>
                Inr (map filenames train_df, map (\<lambda>k. k - 1) (map num_id train_df),
                     map filenames (assign_filenames df
                       (append_path_to (path_join test_dir ''validation'') (map filenames df))),
                     map (\<lambda>k. k - 1) (map num_id (assign_filenames df
                       (append_path_to (path_join test_dir ''validation'') (map filenames df))))))"
  by (simp_all add: create_data_fn_def load_validation_loaded [OF assms] fst_run_bind snd_run_bind
        Let_def split: sum.splits)


lemma create_data_fn_cases:
  assumes "read_csv w (path_join test_dir ''validation.csv'') = Inr df"
  shows "create_data_fn w train_path (Some test_dir) =
     (case load_training w train_path of
        (tr, Inl e) \<Rightarrow> (LogInfo ''Reading training data info'' # tr, Inl e)
      | (tr, Inr train_df) \<Rightarrow>
          (LogInfo ''Reading training data info'' # tr
             @ [LogInfo ''Reading validation data info'',
                ReadCsv (path_join test_dir ''validation.csv'')],
           Inr (map filenames train_df, map (\<lambda>k. k - 1) (map num_id train_df),
                map filenames (assign_filenames df
                  (append_path_to (path_join test_dir ''validation'') (map filenames df))),
                map (\<lambda>k. k - 1) (map num_id (assign_filenames df
                  (append_path_to (path_join test_dir ''validation'') (map filenames df)))))))"
  by (rule prod_eqI)
     (simp_all add: create_data_fn_loaded [OF assms] split: prod.splits sum.splits)

lemma validation_read_in_main:
  assumes "getenv w ''AZ_BATCHAI_INPUT_TEST'' = Some test_dir"
    and "read_csv w (path_join test_dir ''validation.csv'') = Inr validation_df"
    and "snd (load_training w (getenv w ''AZ_BATCHAI_INPUT_TRAIN'')) = Inr train_df"
  shows "ReadCsv (path_join test_dir ''validation.csv'') \<in> set (fst (main w))"
proof -
  obtain tr where "load_training w (getenv w ''AZ_BATCHAI_INPUT_TRAIN'') = (tr, Inr train_df)"
    using assms(3) by (cases "load_training w (getenv w ''AZ_BATCHAI_INPUT_TRAIN'')") simp
  then show ?thesis
    by (cases "DISTRIBUTED (module_globals w)")
       (simp_all add: main_single main_distributed assms(1) create_data_fn_cases [OF assms(2)]
          Let_def)
qed

lemma validation_index_built:
  assumes "read_csv w (path_join test_dir ''validation.csv'') = Inr df"
    and "snd (load_training w train_path) = Inr train_df"
  shows "snd (create_data_fn w train_path (Some test_dir)) =
     Inr (map filenames train_df, map (\<lambda>k. k - 1) (map num_id train_df),
          map (\<lambda>r. path_join (path_join test_dir ''validation'') (filenames r)) df,
          map (\<lambda>r. num_id r - 1) df)"
proof -
  obtain tr where "load_training w train_path = (tr, Inr train_df)"
    using assms(2) by (cases "load_training w train_path") simp
  then show ?thesis
    by (simp add: create_data_fn_cases [OF assms(1)] assign_filenames_map comp_def)
qed

text \<open>
  C10. The validation index is loaded and then never used. Whenever the training manifest
  loads, \<^verbatim>\<open>main\<close> reads \<^verbatim>\<open>validation.csv\<close>, and \<^verbatim>\<open>_create_data_fn\<close> returns, as
  \<^verbatim>\<open>valid_X\<close> and \<^verbatim>\<open>valid_y\<close>, the paths and the zero-based labels of exactly the rows of
  the validation manifest. Yet replacing the contents of a validation manifest that loads
  by any other contents that load, which changes \<^verbatim>\<open>valid_X\<close> and \<^verbatim>\<open>valid_y\<close> accordingly,
  leaves the whole run of \<^verbatim>\<open>main\<close>, its trace and its outcome, unchanged. The image files
  and everything else the process is given are the same in both runs.
\<close>

theorem validation_manifest_unused:
  assumes "getenv w ''AZ_BATCHAI_INPUT_TEST'' = Some test_dir"
    and "read_csv w (path_join test_dir ''validation.csv'') = Inr validation_df"
  shows "main (w\<lparr>read_csv := (read_csv w)(path_join test_dir ''validation.csv'' := Inr other_df)\<rparr>)
           = main w
       \<and> (\<forall>train_df. snd (load_training w (getenv w ''AZ_BATCHAI_INPUT_TRAIN'')) = Inr train_df
             \<longrightarrow> ReadCsv (path_join test_dir ''validation.csv'') \<in> set (fst (main w))
               \<and> snd (create_data_fn w (getenv w ''AZ_BATCHAI_INPUT_TRAIN'')
                         (getenv w ''AZ_BATCHAI_INPUT_TEST''))
                   = Inr (map filenames train_df, map (\<lambda>k. k - 1) (map num_id train_df),
                          map (\<lambda>r. path_join (path_join test_dir ''validation'') (filenames r))
                            validation_df,
                          map (\<lambda>r. num_id r - 1) validation_df)
               \<and> snd (create_data_fn
                         (w\<lparr>read_csv := (read_csv w)
                               (path_join test_dir ''validation.csv'' := Inr other_df)\<rparr>)
                         (getenv w ''AZ_BATCHAI_INPUT_TRAIN'') (getenv w ''AZ_BATCHAI_INPUT_TEST''))
                   = Inr (map filenames train_df, map (\<lambda>k. k - 1) (map num_id train_df),
                          map (\<lambda>r. path_join (path_join test_dir ''validation'') (filenames r))
                            other_df,
                          map (\<lambda>r. num_id r - 1) other_df))"
proof -
  define w' where
    "w' = w\<lparr>read_csv := (read_csv w)(path_join test_dir ''validation.csv'' := Inr other_df)\<rparr>"
  have loaded': "read_csv w' (path_join test_dir ''validation.csv'') = Inr other_df"
    by (simp add: w'_def)
  have training: "load_training w' train_path = load_training w train_path" for train_path
    unfolding w'_def by (rule load_training_other_file)
  have same [simp]: "module_globals w' = module_globals w" "getenv w' = getenv w"
    "horovod w' = horovod w" "train_transform w' = train_transform w"
    "epochs_loop w' = epochs_loop w"
    by (simp_all add: w'_def fun_eq_iff)
  have "main w' = main w"
  proof (cases "DISTRIBUTED (module_globals w)")
    case False
    then show ?thesis
      by (simp add: main_single assms(1) create_data_fn_cases [OF assms(2)]
            create_data_fn_cases [OF loaded'] training split: prod.splits sum.splits)
  next
    case True
    then show ?thesis
      by (simp add: main_distributed assms(1) create_data_fn_cases [OF assms(2)]
            create_data_fn_cases [OF loaded'] training split: prod.splits sum.splits)
  qed
  then have unchanged:
    "main (w\<lparr>read_csv := (read_csv w)(path_join test_dir ''validation.csv'' := Inr other_df)\<rparr>)
       = main w"
    by (simp only: w'_def)
  have built: "snd (create_data_fn w (getenv w ''AZ_BATCHAI_INPUT_TRAIN'')
                 (getenv w ''AZ_BATCHAI_INPUT_TEST''))
        = Inr (map filenames train_df, map (\<lambda>k. k - 1) (map num_id train_df),
               map (\<lambda>r. path_join (path_join test_dir ''validation'') (filenames r)) validation_df,
               map (\<lambda>r. num_id r - 1) validation_df)"
    if "snd (load_training w (getenv w ''AZ_BATCHAI_INPUT_TRAIN'')) = Inr train_df" for train_df
    using validation_index_built [OF assms(2) that] by (simp only: assms(1))
  have built': "snd (create_data_fn
                 (w\<lparr>read_csv := (read_csv w)(path_join test_dir ''validation.csv'' := Inr other_df)\<rparr>)
                 (getenv w ''AZ_BATCHAI_INPUT_TRAIN'') (getenv w ''AZ_BATCHAI_INPUT_TEST''))
        = Inr (map filenames train_df, map (\<lambda>k. k - 1) (map num_id train_df),
               map (\<lambda>r. path_join (path_join test_dir ''validation'') (filenames r)) other_df,
               map (\<lambda>r. num_id r - 1) other_df)"
    if "snd (load_training w (getenv w ''AZ_BATCHAI_INPUT_TRAIN'')) = Inr train_df" for train_df
  proof -
    from that have "snd (load_training w' (getenv w ''AZ_BATCHAI_INPUT_TRAIN'')) = Inr train_df"
      by (simp only: training)
    from validation_index_built [OF loaded' this] show ?thesis
      by (simp only: assms(1) w'_def)
  qed
  from unchanged validation_read_in_main [OF assms] built built' show ?thesis
    by (intro conjI allI impI) assumption+
qed

theorem validation_manifest_unused_witness:
  "getenv demo_world ''AZ_BATCHAI_INPUT_TEST'' = Some ''/data''
   \<and> read_csv demo_world ''/data/validation.csv'' = Inr [\<lparr>filenames = ''v.jpg'', num_id = 3\<rparr>]
   \<and> main (demo_world\<lparr>read_csv := (read_csv demo_world)
              (''/data/validation.csv'' := Inr [\<lparr>filenames = ''x.png'', num_id = 9\<rparr>,
                                               \<lparr>filenames = ''y.png'', num_id = 1\<rparr>])\<rparr>)
       = main demo_world
   \<and> snd (create_data_fn demo_world (Some ''/data'') (Some ''/data''))
       = Inr ([''/data/train/a.jpg'', ''/data/train/b.jpg'', ''/data/train/c.jpg''], [0, 1, 0],
              [''/data/validation/v.jpg''], [2])
   \<and> snd (create_data_fn
             (demo_world\<lparr>read_csv := (read_csv demo_world)
                (''/data/validation.csv'' := Inr [\<lparr>filenames = ''x.png'', num_id = 9\<rparr>,
                                                 \<lparr>filenames = ''y.png'', num_id = 1\<rparr>])\<rparr>)
             (Some ''/data'') (Some ''/data''))
       = Inr ([''/data/train/a.jpg'', ''/data/train/b.jpg'', ''/data/train/c.jpg''], [0, 1, 0],
              [''/data/validation/x.png'', ''/data/validation/y.png''], [8, 0])"
proof -
  have env: "getenv demo_world ''AZ_BATCHAI_INPUT_TEST'' = Some ''/data''"
    by (simp add: demo_world_def)
  have path: "path_join ''/data'' ''validation.csv'' = ''/data/validation.csv''"
    by (simp add: path_join_def)
  have loaded: "read_csv demo_world ''/data/validation.csv'' = Inr [\<lparr>filenames = ''v.jpg'', num_id = 3\<rparr>]"
    by (simp add: demo_world_def)
  have loaded_at: "read_csv demo_world (path_join ''/data'' ''validation.csv'')
      = Inr [\<lparr>filenames = ''v.jpg'', num_id = 3\<rparr>]"
    by (simp only: path loaded)
  from validation_manifest_unused [OF env loaded_at,
      of "[\<lparr>filenames = ''x.png'', num_id = 9\<rparr>, \<lparr>filenames = ''y.png'', num_id = 1\<rparr>]"]
  have "main (demo_world\<lparr>read_csv := (read_csv demo_world)
              (path_join ''/data'' ''validation.csv'' := Inr [\<lparr>filenames = ''x.png'', num_id = 9\<rparr>,
                                               \<lparr>filenames = ''y.png'', num_id = 1\<rparr>])\<rparr>)
       = main demo_world"
    by (rule conjunct1)
  then have unchanged: "main (demo_world\<lparr>read_csv := (read_csv demo_world)
              (''/data/validation.csv'' := Inr [\<lparr>filenames = ''x.png'', num_id = 9\<rparr>,
                                               \<lparr>filenames = ''y.png'', num_id = 1\<rparr>])\<rparr>)
       = main demo_world"
    by (simp only: path)
  have index: "snd (create_data_fn demo_world (Some ''/data'') (Some ''/data''))
       = Inr ([''/data/train/a.jpg'', ''/data/train/b.jpg'', ''/data/train/c.jpg''], [0, 1, 0],
              [''/data/validation/v.jpg''], [2])"
    by code_simp
  have index': "snd (create_data_fn
             (demo_world\<lparr>read_csv := (read_csv demo_world)
                (''/data/validation.csv'' := Inr [\<lparr>filenames = ''x.png'', num_id = 9\<rparr>,
                                                 \<lparr>filenames = ''y.png'', num_id = 1\<rparr>])\<rparr>)
             (Some ''/data'') (Some ''/data''))
       = Inr ([''/data/train/a.jpg'', ''/data/train/b.jpg'', ''/data/train/c.jpg''], [0, 1, 0],
              [''/data/validation/x.png'', ''/data/validation/y.png''], [8, 0])"
    by code_simp
  from env loaded unchanged index index' show ?thesis
    by (intro conjI)
qed

end
